theory Spec2Isabelle
  imports Main "HOL-Library.AList"
begin

section \<open>Values, documents and identifiers\<close>

text \<open>
  The service is a set of FastAPI handlers (\<^verbatim>\<open>main.py\<close>) over a MongoDB database, with
  three pydantic record kinds (\<^verbatim>\<open>schemas.py\<close>). A Python \<^verbatim>\<open>str\<close> is a HOL string, one
  \<^typ>\<open>char\<close> per code point; the three pictographs of the diagnostic texts (code points
  above 255) are written as their UTF-8 bytes, which the code never slices or measures.

  A value of type \<^verbatim>\<open>Any\<close> is a JSON value (floating-point numbers are left out), or an
  \<^verbatim>\<open>ObjectId\<close> in the \<^verbatim>\<open>_id\<close> field of a stored document. A Python \<^verbatim>\<open>dict\<close> with string
  keys is an association list read with \<^const>\<open>map_of\<close> and written with
  \<^const>\<open>AList.update\<close> and \<^const>\<open>AList.delete\<close>.
\<close>

type_synonym oid = string

datatype jval =
    JNull
  | JBool bool
  | JInt int
  | JStr string
  | JList "jval list"
  | JDict "(string \<times> jval) list"
  | JOid oid

type_synonym doc = "(string \<times> jval) list"

text \<open>
  Exceptions. \<open>HTTPException\<close> is the one the framework turns into a response with the
  given status and detail; every other exception leaves the handler unhandled and the
  framework answers with its generic status 500: \<open>InvalidId\<close> from the identifier
  conversion, pydantic's \<open>ValidationError\<close> from a record constructor, and the storage
  error of the store adapter.
\<close>

datatype error =
    HTTPException int string
  | InvalidId string
  | ValidationError
  | StorageUnavailable


text \<open>
  The status the client sees: the decorator's \<^verbatim>\<open>status_code\<close> (200 when none is given)
  on a normal return, the exception's status for an \<open>HTTPException\<close>, 500 otherwise.
\<close>

fun http_status :: "int \<Rightarrow> error + 'a \<Rightarrow> int" where
  "http_status ok (Inr r) = ok"
| "http_status ok (Inl (HTTPException c d)) = c"
| "http_status ok (Inl e) = 500"

subsection \<open>Strings\<close>

definition lower_char :: "char \<Rightarrow> char" where
  "lower_char c =
     (let n = (of_char c :: nat) in if 65 \<le> n \<and> n \<le> 90 then char_of (n + 32) else c)"

definition lower :: "string \<Rightarrow> string" where
  "lower s = map lower_char s"

text \<open>The slice \<^verbatim>\<open>s[-6:]\<close>: the last six characters, the whole string when it is shorter.\<close>

definition last6 :: "string \<Rightarrow> string" where
  "last6 s = drop (length s - 6) s"

text \<open>\<^verbatim>\<open>t in s\<close> on strings: \<open>t\<close> occurs in \<open>s\<close> as a contiguous substring.\<close>

fun starts_with :: "string \<Rightarrow> string \<Rightarrow> bool" where
  "starts_with [] s = True"
| "starts_with (c # t) [] = False"
| "starts_with (c # t) (d # s) = (c = d \<and> starts_with t s)"

fun contains :: "string \<Rightarrow> string \<Rightarrow> bool" where
  "contains t [] = (t = [])"
| "contains t (d # s) = (starts_with t (d # s) \<or> contains t s)"

subsection \<open>Object identifiers\<close>

text \<open>
  \<^verbatim>\<open>bson.ObjectId\<close> is a library type; it is modelled from its documented contract.
  An identifier is twelve bytes; \<^verbatim>\<open>ObjectId(s)\<close> accepts a string of exactly 24
  hexadecimal digits of either case and raises \<open>InvalidId\<close> on any other string;
  \<^verbatim>\<open>str\<close> of an identifier is its 24 lower-case digits, which is how the model
  keeps it. A newly generated identifier is the rendering of the store's counter:
  \<open>hex k n\<close> is the last \<open>k\<close> hexadecimal digits of \<open>n\<close>.
\<close>

definition hexdigits :: string where
  "hexdigits = ''0123456789abcdef''"

definition is_hex :: "char \<Rightarrow> bool" where
  "is_hex c = (c \<in> set ''0123456789abcdefABCDEF'')"

definition ObjectId :: "string \<Rightarrow> error + oid" where
  "ObjectId s =
     (if length s = 24 \<and> list_all is_hex s then Inr (lower s) else Inl (InvalidId s))"

fun hex :: "nat \<Rightarrow> nat \<Rightarrow> string" where
  "hex 0 n = []"
| "hex (Suc k) n = hex k (n div 16) @ [hexdigits ! (n mod 16)]"

definition hex24 :: "nat \<Rightarrow> oid" where
  "hex24 n = hex 24 n"

text \<open>
  \<^verbatim>\<open>str(v)\<close> inside an f-string or in \<^verbatim>\<open>_to_public\<close>: a string is itself and an
  identifier is its digits; the rendering of any other value is the parameter \<open>repr\<close>.
\<close>

fun py_str :: "(jval \<Rightarrow> string) \<Rightarrow> jval \<Rightarrow> string" where
  "py_str repr (JStr s) = s"
| "py_str repr (JOid i) = i"
| "py_str repr v = repr v"


section \<open>The document store\<close>

text \<open>
  \<^verbatim>\<open>db\<close> is \<^verbatim>\<open>None\<close> or a pymongo database, so a store state is a
  \<open>database option\<close>. A collection is the list of its documents in storage order, each
  kept as its \<^verbatim>\<open>_id\<close> and its other fields. \<open>name_attr\<close> is what reading
  \<^verbatim>\<open>db.name\<close> does and \<open>listing_error\<close> is the message of the exception that
  \<^verbatim>\<open>db.list_collection_names()\<close> raises, if it raises. \<open>oplog\<close> records the write
  commands in the order they were issued.
\<close>

datatype attr = NoAttr | Attr string | AttrRaises string

datatype store_op = InsertOp string oid doc | UpdateOp string oid doc

record database =
  name_attr :: attr
  listing_error :: "string option"
  colls :: "(string \<times> (oid \<times> doc) list) list"
  next_oid :: nat
  oplog :: "store_op list"

definition coll_docs :: "database \<Rightarrow> string \<Rightarrow> (oid \<times> doc) list" where
  "coll_docs d c = (case map_of (colls d) c of None \<Rightarrow> [] | Some ds \<Rightarrow> ds)"

text \<open>A stored document as pymongo hands it out: the \<^verbatim>\<open>_id\<close> first, then the fields.\<close>

definition with_id :: "oid \<times> doc \<Rightarrow> doc" where
  "with_id p = (''_id'', JOid (fst p)) # snd p"

text \<open>\<^verbatim>\<open>db[c].insert_one(f)\<close>, with the identifier the driver generates.\<close>

definition insert_one :: "database \<Rightarrow> string \<Rightarrow> doc \<Rightarrow> oid \<times> database" where
  "insert_one d c f =
     (let i = hex24 (next_oid d) in
      (i, d\<lparr>colls := AList.update c (coll_docs d c @ [(i, f)]) (colls d),
             next_oid := Suc (next_oid d),
             oplog := oplog d @ [InsertOp c i f]\<rparr>))"

text \<open>\<^verbatim>\<open>db[c].find_one({"_id": i})\<close>: the first document with that identifier.\<close>

definition find_one :: "database \<Rightarrow> string \<Rightarrow> oid \<Rightarrow> doc option" where
  "find_one d c i = map_option with_id (find (\<lambda>p. fst p = i) (coll_docs d c))"

text \<open>
  \<^verbatim>\<open>db[c].update_one({"_id": i}, {"$set": s})\<close>: the first document with that
  identifier gets the fields of \<open>s\<close>; nothing changes when there is none.
\<close>

fun set_fields :: "doc \<Rightarrow> doc \<Rightarrow> doc" where
  "set_fields [] f = f"
| "set_fields ((k, v) # s) f = set_fields s (AList.update k v f)"

fun update_first :: "oid \<Rightarrow> doc \<Rightarrow> (oid \<times> doc) list \<Rightarrow> (oid \<times> doc) list" where
  "update_first i s [] = []"
| "update_first i s (p # ds) =
     (if fst p = i then (fst p, set_fields s (snd p)) # ds else p # update_first i s ds)"

definition update_one :: "database \<Rightarrow> string \<Rightarrow> oid \<Rightarrow> doc \<Rightarrow> database" where
  "update_one d c i s =
     d\<lparr>colls := (case map_of (colls d) c of
                   None \<Rightarrow> colls d
                 | Some ds \<Rightarrow> AList.update c (update_first i s ds) (colls d)),
       oplog := oplog d @ [UpdateOp c i s]\<rparr>"

text \<open>
  \<^verbatim>\<open>db.name if hasattr(db, 'name') else ...\<close> and \<^verbatim>\<open>db.list_collection_names()\<close>;
  \<open>Inl m\<close> is an exception whose \<^verbatim>\<open>str\<close> is \<open>m\<close>.
\<close>

definition db_name :: "database \<Rightarrow> string \<Rightarrow> string + string" where
  "db_name d dflt =
     (case name_attr d of NoAttr \<Rightarrow> Inr dflt | Attr n \<Rightarrow> Inr n | AttrRaises m \<Rightarrow> Inl m)"

definition list_collection_names :: "database \<Rightarrow> string + string list" where
  "list_collection_names d =
     (case listing_error d of Some m \<Rightarrow> Inl m | None \<Rightarrow> Inr (map fst (colls d)))"

section \<open>Record schemas\<close>

text \<open>
  The pydantic classes of \<^verbatim>\<open>schemas.py\<close> that the handlers use. Every field of
  \<open>Deployment\<close> and \<open>GenerationJob\<close> is given by the handlers with its declared type.
  The \<open>name\<close> of a \<open>ModelSpec\<close> is declared \<^verbatim>\<open>str\<close> and comes from a map of
  \<^verbatim>\<open>Any\<close>, so the constructor validates it: a string is accepted and the other values
  (\<^verbatim>\<open>None\<close> among them) raise \<open>ValidationError\<close>. This is pydantic 2; version 1
  converts a number to a string and rejects the other values as well. \<open>User\<close> and
  \<open>Product\<close> are classes no handler constructs.
\<close>

datatype kind = User | Product | ModelSpec | Deployment | GenerationJob

fun class_name :: "kind \<Rightarrow> string" where
  "class_name User = ''User''"
| "class_name Product = ''Product''"
| "class_name ModelSpec = ''ModelSpec''"
| "class_name Deployment = ''Deployment''"
| "class_name GenerationJob = ''GenerationJob''"

record model_spec =
  ms_name :: string
  ms_prompt :: string
  ms_version :: string
  ms_status :: string
  ms_parameters :: "doc option"
  ms_artifacts :: "string list option"

record deployment =
  dep_model_id :: string
  dep_name :: string
  dep_url :: "string option"
  dep_status :: string

record generation_job =
  job_prompt :: string
  job_status :: string
  job_model_id :: "string option"

definition new_ModelSpec ::
  "jval \<Rightarrow> string \<Rightarrow> string \<Rightarrow> string \<Rightarrow> doc \<Rightarrow> string list \<Rightarrow> error + model_spec" where
  "new_ModelSpec name prompt version status parameters artifacts =
     (case name of
        JStr n \<Rightarrow> Inr \<lparr>ms_name = n, ms_prompt = prompt, ms_version = version,
                        ms_status = status, ms_parameters = Some parameters,
                        ms_artifacts = Some artifacts\<rparr>
      | _ \<Rightarrow> Inl ValidationError)"

datatype base_model =
    OfModelSpec model_spec
  | OfDeployment deployment
  | OfGenerationJob generation_job

definition opt_str :: "string option \<Rightarrow> jval" where
  "opt_str s = (case s of None \<Rightarrow> JNull | Some t \<Rightarrow> JStr t)"

fun model_dump :: "base_model \<Rightarrow> doc" where
  "model_dump (OfModelSpec m) =
     [(''name'', JStr (ms_name m)), (''prompt'', JStr (ms_prompt m)),
      (''version'', JStr (ms_version m)), (''status'', JStr (ms_status m)),
      (''parameters'', (case ms_parameters m of None \<Rightarrow> JNull | Some p \<Rightarrow> JDict p)),
      (''artifacts'',
        (case ms_artifacts m of None \<Rightarrow> JNull | Some a \<Rightarrow> JList (map JStr a)))]"
| "model_dump (OfDeployment x) =
     [(''model_id'', JStr (dep_model_id x)), (''name'', JStr (dep_name x)),
      (''url'', opt_str (dep_url x)), (''status'', JStr (dep_status x))]"
| "model_dump (OfGenerationJob j) =
     [(''prompt'', JStr (job_prompt j)), (''status'', JStr (job_status j)),
      (''model_id'', opt_str (job_model_id j))]"

section \<open>The store adapter\<close>

text \<open>
  Modelled from the spec: \<^verbatim>\<open>create_document\<close> of \<^verbatim>\<open>database.py\<close>, which is not among
  the sources. It serialises the record's fields, inserts them into the named collection
  and returns the new record's identifier as a string; it fails with a storage error
  when the connection is unavailable.
\<close>

definition create_document ::
  "database option \<Rightarrow> string \<Rightarrow> base_model \<Rightarrow> (error + string) \<times> database option" where
  "create_document db c data =
     (case db of
        None \<Rightarrow> (Inl StorageUnavailable, None)
      | Some d \<Rightarrow> (let (i, d') = insert_one d c (model_dump data) in (Inr i, Some d')))"

text \<open>
  Modelled from the spec: \<^verbatim>\<open>get_documents\<close> of \<^verbatim>\<open>database.py\<close>, which is not among
  the sources. It returns up to \<open>limit\<close> records of the named collection in storage
  order, each with its identifier, and fails like \<open>create_document\<close> when the connection
  is unavailable.
\<close>

definition get_documents :: "database option \<Rightarrow> string \<Rightarrow> int \<Rightarrow> error + doc list" where
  "get_documents db c limit =
     (case db of
        None \<Rightarrow> Inl StorageUnavailable
      | Some d \<Rightarrow> Inr (map with_id (take (nat limit) (coll_docs d c))))"

section \<open>The handlers\<close>

text \<open>
  A handler takes the store state and its request and returns what it raises or
  returns, with the store state it leaves; a handler that writes nothing returns its
  result alone. A response body is the dictionary the handler returns. \<open>getenv\<close> is
  \<^verbatim>\<open>os.getenv\<close>.
\<close>

definition collection_name :: "kind \<Rightarrow> string" where
  "collection_name model_cls = lower (class_name model_cls)"

text \<open>\<^verbatim>\<open>x or y\<close> for an optional string \<open>x\<close>: \<open>y\<close> when \<open>x\<close> is \<^verbatim>\<open>None\<close> or empty.\<close>

definition str_or :: "string option \<Rightarrow> string \<Rightarrow> string" where
  "str_or x y = (case x of None \<Rightarrow> y | Some s \<Rightarrow> if s = [] then y else s)"

text \<open>\<^verbatim>\<open>not model\<close> for the result of \<open>find_one\<close>: \<^verbatim>\<open>None\<close> or an empty dictionary.\<close>

definition falsy :: "doc option \<Rightarrow> bool" where
  "falsy m = (case m of None \<Rightarrow> True | Some f \<Rightarrow> f = [])"

definition read_root :: doc where
  "read_root = [(''message'', JStr ''AI Platform backend is live'')]"

subsection \<open>The diagnostic handler\<close>

definition ok_mark :: string where
  "ok_mark = [CHR 0xE2, CHR 0x9C, CHR 0x85]"

definition cross_mark :: string where
  "cross_mark = [CHR 0xE2, CHR 0x9D, CHR 0x8C]"

definition warn_mark :: string where
  "warn_mark = [CHR 0xE2, CHR 0x9A, CHR 0xA0, CHR 0xEF, CHR 0xB8, CHR 0x8F]"

definition set_env :: "(string \<Rightarrow> string option) \<Rightarrow> string \<Rightarrow> jval" where
  "set_env getenv k =
     (case getenv k of
        None \<Rightarrow> JStr (cross_mark @ '' Not Set'')
      | Some v \<Rightarrow> JStr (if v = [] then cross_mark @ '' Not Set'' else ok_mark @ '' Set''))"

text \<open>
  The inner \<^verbatim>\<open>try\<close> of \<open>test_database\<close>: the collection listing, its first ten names
  and the success text, or the text of the listing's exception cut at 50 characters.
\<close>

definition test_listing :: "database \<Rightarrow> doc \<Rightarrow> doc" where
  "test_listing d response =
     (case list_collection_names d of
        Inr collections \<Rightarrow>
          AList.update ''database'' (JStr (ok_mark @ '' Connected & Working''))
            (AList.update ''collections'' (JList (map JStr (take 10 collections))) response)
      | Inl e \<Rightarrow>
          AList.update ''database''
            (JStr (warn_mark @ ''  Connected but Error: '' @ take 50 e)) response)"

text \<open>
  The outer \<^verbatim>\<open>try\<close>: an exception of \<^verbatim>\<open>db.name\<close> leaves the two assignments before it
  in place and is reported by the outer handler, cut at 50 characters.
\<close>

definition test_connection :: "database option \<Rightarrow> doc \<Rightarrow> doc" where
  "test_connection db response =
     (case db of
        Some d \<Rightarrow>
          (let response = AList.update ''database'' (JStr (ok_mark @ '' Available'')) response;
               response =
                 AList.update ''database_url'' (JStr (ok_mark @ '' Configured'')) response
           in case db_name d (ok_mark @ '' Connected'') of
                Inr n \<Rightarrow>
                  test_listing d
                    (AList.update ''connection_status'' (JStr ''Connected'')
                      (AList.update ''database_name'' (JStr n) response))
              | Inl e \<Rightarrow>
                  AList.update ''database''
                    (JStr (cross_mark @ '' Error: '' @ take 50 e)) response)
      | None \<Rightarrow>
          AList.update ''database''
            (JStr (warn_mark @ ''  Available but not initialized'')) response)"

definition test_database :: "(string \<Rightarrow> string option) \<Rightarrow> database option \<Rightarrow> error + doc" where
  "test_database getenv db =
     (let response =
            [(''backend'', JStr (ok_mark @ '' Running'')),
             (''database'', JStr (cross_mark @ '' Not Available'')),
             (''database_url'', JNull),
             (''database_name'', JNull),
             (''connection_status'', JStr ''Not Connected''),
             (''collections'', JList [])];
          response = test_connection db response;
          response = AList.update ''database_url'' (set_env getenv ''DATABASE_URL'') response;
          response = AList.update ''database_name'' (set_env getenv ''DATABASE_NAME'') response
      in Inr response)"

subsection \<open>Utilities\<close>

definition to_public :: "(jval \<Rightarrow> string) \<Rightarrow> doc \<Rightarrow> doc" where
  "to_public repr doc =
     (if doc = [] then doc
      else case map_of doc ''_id'' of
             Some v \<Rightarrow> AList.update ''id'' (JStr (py_str repr v)) (AList.delete ''_id'' doc)
           | None \<Rightarrow> doc)"

definition get_schema_definitions :: doc where
  "get_schema_definitions =
     [(''models'', JList (map JStr
        [''user'', ''product'', ''modelspec'', ''deployment'', ''generationjob'']))]"

subsection \<open>Generation\<close>

record PromptRequest =
  pr_prompt :: string
  pr_parameters :: "doc option"

text \<open>
  \<^verbatim>\<open>req.parameters.get("name", "Prompt Model") if req and req.parameters else "Prompt Model"\<close>:
  the request object is truthy, and the parameters are when they are a non-empty map.
\<close>

definition requested_name :: "PromptRequest \<Rightarrow> jval" where
  "requested_name req =
     (case pr_parameters req of
        None \<Rightarrow> JStr ''Prompt Model''
      | Some p \<Rightarrow>
          if p = [] then JStr ''Prompt Model''
          else (case map_of p ''name'' of None \<Rightarrow> JStr ''Prompt Model'' | Some v \<Rightarrow> v))"

text \<open>
  The block \<^verbatim>\<open># Update job to completed\<close> that ends \<open>generate_model\<close>: the check of the
  store, the update of the job and the response.
\<close>

definition complete_job ::
  "database option \<Rightarrow> string \<Rightarrow> string \<Rightarrow> (error + doc) \<times> database option" where
  "complete_job db job_id model_id =
     (case db of
        None \<Rightarrow> (Inl (HTTPException 500 ''Database not configured''), db)
      | Some d \<Rightarrow>
          (case ObjectId job_id of
             Inl e \<Rightarrow> (Inl e, db)
           | Inr i \<Rightarrow>
               (Inr [(''job_id'', JStr job_id), (''model_id'', JStr model_id)],
                Some (update_one d (collection_name GenerationJob) i
                        [(''status'', JStr ''completed''), (''model_id'', JStr model_id)]))))"

definition generate_model ::
  "database option \<Rightarrow> PromptRequest \<Rightarrow> (error + doc) \<times> database option" where
  "generate_model db req =
     (let job = \<lparr>job_prompt = pr_prompt req, job_status = ''running'', job_model_id = None\<rparr>
      in case create_document db (collection_name GenerationJob) (OfGenerationJob job) of
           (Inl e, db1) \<Rightarrow> (Inl e, db1)
         | (Inr job_id, db1) \<Rightarrow>
             (case new_ModelSpec (requested_name req) (pr_prompt req) ''v1'' ''ready''
                     (case pr_parameters req of None \<Rightarrow> [] | Some p \<Rightarrow> p)
                     [''weights://mock/model.bin'', ''tokenizer://mock/vocab.json''] of
                Inl e \<Rightarrow> (Inl e, db1)
              | Inr model \<Rightarrow>
                  (case create_document db1 (collection_name ModelSpec) (OfModelSpec model) of
                     (Inl e, db2) \<Rightarrow> (Inl e, db2)
                   | (Inr model_id, db2) \<Rightarrow> complete_job db2 job_id model_id)))"

subsection \<open>Listing\<close>

definition list_models :: "(jval \<Rightarrow> string) \<Rightarrow> database option \<Rightarrow> int \<Rightarrow> error + doc list" where
  "list_models repr db limit =
     (case get_documents db (collection_name ModelSpec) limit of
        Inl e \<Rightarrow> Inl e
      | Inr docs \<Rightarrow> Inr (map (to_public repr) docs))"

definition list_deployments ::
  "(jval \<Rightarrow> string) \<Rightarrow> database option \<Rightarrow> int \<Rightarrow> error + doc list" where
  "list_deployments repr db limit =
     (case get_documents db (collection_name Deployment) limit of
        Inl e \<Rightarrow> Inl e
      | Inr docs \<Rightarrow> Inr (map (to_public repr) docs))"

subsection \<open>Deployment\<close>

record DeployRequest =
  dr_model_id :: string
  dr_name :: "string option"

definition getenv_default :: "(string \<Rightarrow> string option) \<Rightarrow> string \<Rightarrow> string \<Rightarrow> string" where
  "getenv_default getenv k dflt = (case getenv k of None \<Rightarrow> dflt | Some v \<Rightarrow> v)"

definition deploy_model ::
  "(string \<Rightarrow> string option) \<Rightarrow> database option \<Rightarrow> DeployRequest
     \<Rightarrow> (error + doc) \<times> database option" where
  "deploy_model getenv db req =
     (case db of
        None \<Rightarrow> (Inl (HTTPException 500 ''Database not configured''), db)
      | Some d \<Rightarrow>
          (case ObjectId (dr_model_id req) of
             Inl e \<Rightarrow> (Inl e, db)
           | Inr i \<Rightarrow>
               if falsy (find_one d (collection_name ModelSpec) i)
               then (Inl (HTTPException 404 ''Model not found''), db)
               else
                 (let deployment =
                        \<lparr>dep_model_id = dr_model_id req,
                         dep_name =
                           str_or (dr_name req) (''deployment-'' @ last6 (dr_model_id req)),
                         dep_url =
                           Some (getenv_default getenv ''PUBLIC_BACKEND_URL'' [] @ ''/serve/''
                                   @ dr_model_id req),
                         dep_status = ''active''\<rparr>
                  in case create_document db (collection_name Deployment)
                            (OfDeployment deployment) of
                       (Inl e, db1) \<Rightarrow> (Inl e, db1)
                     | (Inr dep_id, db1) \<Rightarrow> (Inr [(''deployment_id'', JStr dep_id)], db1))))"

subsection \<open>Serving\<close>

text \<open>\<^verbatim>\<open>model.get('name', 'Model')\<close>.\<close>

definition get_or :: "doc \<Rightarrow> string \<Rightarrow> jval \<Rightarrow> jval" where
  "get_or f k dflt = (case map_of f k of None \<Rightarrow> dflt | Some v \<Rightarrow> v)"

text \<open>The text of the reply before the echoed query.\<close>

definition reply_prefix :: "(jval \<Rightarrow> string) \<Rightarrow> doc \<Rightarrow> string" where
  "reply_prefix repr model =
     ''Model '' @ [CHR 0x27] @ py_str repr (get_or model ''name'' (JStr ''Model''))
       @ [CHR 0x27] @ '' responded to: ''"

definition serve_model ::
  "(jval \<Rightarrow> string) \<Rightarrow> database option \<Rightarrow> string \<Rightarrow> string option \<Rightarrow> error + doc" where
  "serve_model repr db model_id q =
     (case db of
        None \<Rightarrow> Inl (HTTPException 500 ''Database not configured'')
      | Some d \<Rightarrow>
          (case ObjectId model_id of
             Inl e \<Rightarrow> Inl e
           | Inr i \<Rightarrow>
               (case find_one d (collection_name ModelSpec) i of
                  None \<Rightarrow> Inl (HTTPException 404 ''Model not found'')
                | Some model \<Rightarrow>
                    if model = [] then Inl (HTTPException 404 ''Model not found'')
                    else Inr [(''model_id'', JStr model_id),
                              (''status'', JStr ''ok''),
                              (''output'',
                                JStr (reply_prefix repr model @ str_or q ''ping''))])))"

section \<open>Status writes\<close>

text \<open>
  The status a write command gives a \<open>GenerationJob\<close>, with the identifier of the job,
  and the commands a handler issued between the state it got and the state it left.
\<close>

fun job_status_write :: "store_op \<Rightarrow> (oid \<times> jval) option" where
  "job_status_write (InsertOp c i f) =
     (if c = collection_name GenerationJob then map_option (Pair i) (map_of f ''status'')
      else None)"
| "job_status_write (UpdateOp c i s) =
     (if c = collection_name GenerationJob then map_option (Pair i) (map_of s ''status'')
      else None)"

definition job_status_writes :: "store_op list \<Rightarrow> (oid \<times> jval) list" where
  "job_status_writes ops = List.map_filter job_status_write ops"

definition issued :: "database option \<Rightarrow> database option \<Rightarrow> store_op list" where
  "issued db db' =
     (case db of
        None \<Rightarrow> []
      | Some d \<Rightarrow> (case db' of None \<Rightarrow> [] | Some d' \<Rightarrow> drop (length (oplog d)) (oplog d')))"

section \<open>Documents of a generation request\<close>

text \<open>
  The fields \<open>generate_model\<close> gives the job it creates, and the fields it gives the
  model when the requested name is the string \<open>n\<close>.
\<close>

definition job_doc :: "PromptRequest \<Rightarrow> doc" where
  "job_doc req =
     [(''prompt'', JStr (pr_prompt req)), (''status'', JStr ''running''), (''model_id'', JNull)]"

definition model_doc :: "PromptRequest \<Rightarrow> string \<Rightarrow> doc" where
  "model_doc req n =
     [(''name'', JStr n), (''prompt'', JStr (pr_prompt req)), (''version'', JStr ''v1''),
      (''status'', JStr ''ready''),
      (''parameters'', JDict (case pr_parameters req of None \<Rightarrow> [] | Some p \<Rightarrow> p)),
      (''artifacts'',
        JList [JStr ''weights://mock/model.bin'', JStr ''tokenizer://mock/vocab.json''])]"

section \<open>Example states and requests\<close>

text \<open>
  Concrete inputs at which the theorems below are instantiated: no environment
  variable set, a rendering of values that are neither strings nor identifiers, a
  store with no collection, a store holding one model, and some requests.
\<close>

definition no_env :: "string \<Rightarrow> string option" where
  "no_env k = None"

definition some_repr :: "jval \<Rightarrow> string" where
  "some_repr v = ''?''"

definition empty_store :: database where
  "empty_store =
     \<lparr>name_attr = Attr ''app'', listing_error = None, colls = [], next_oid = 0, oplog = []\<rparr>"

definition demo_id :: string where
  "demo_id = ''0000000000000000000000aa''"

definition demo_store :: database where
  "demo_store =
     \<lparr>name_attr = Attr ''app'', listing_error = None,
      colls = [(''modelspec'', [(demo_id, [(''name'', JStr ''demo''), (''status'', JStr ''ready'')])])],
      next_oid = 171, oplog = []\<rparr>"

definition absent_id :: string where
  "absent_id = ''0000000000000000000000bb''"

definition failing_store :: database where
  "failing_store = empty_store\<lparr>listing_error := Some ''boom''\<rparr>"

definition hello_request :: PromptRequest where
  "hello_request = \<lparr>pr_prompt = ''hello'', pr_parameters = None\<rparr>"

definition null_name_request :: PromptRequest where
  "null_name_request = \<lparr>pr_prompt = ''hello'', pr_parameters = Some [(''name'', JNull)]\<rparr>"

definition demo_deploy :: DeployRequest where
  "demo_deploy = \<lparr>dr_model_id = demo_id, dr_name = None\<rparr>"

definition absent_deploy :: DeployRequest where
  "absent_deploy = \<lparr>dr_model_id = absent_id, dr_name = None\<rparr>"

definition malformed_deploy :: DeployRequest where
  "malformed_deploy = \<lparr>dr_model_id = ''abc'', dr_name = None\<rparr>"

section \<open>Basic facts\<close>

lemma collection_name_ModelSpec: "collection_name ModelSpec = ''modelspec''"
  by code_simp

lemma collection_name_GenerationJob: "collection_name GenerationJob = ''generationjob''"
  by code_simp

lemma collection_name_Deployment: "collection_name Deployment = ''deployment''"
  by code_simp

lemma starts_with_append: "starts_with t (t @ b)"
  by (induction t) auto

lemma contains_prefix: "contains t (t @ b)"
proof (cases "t @ b")
  case Nil
  then show ?thesis by simp
next
  case (Cons a l)
  have "starts_with t (t @ b)" by (rule starts_with_append)
  then show ?thesis by (simp add: Cons)
qed

lemma contains_append: "contains t s \<Longrightarrow> contains t (a @ s)"
  by (induction a) simp_all

lemma contains_suffix: "contains t (a @ t)"
  using contains_prefix [of t "[]"] contains_append [of t t a] by simp

lemma str_or_empty: "str_or (Some []) y = str_or None y"
  by (simp add: str_or_def)

subsection \<open>Identifiers\<close>

lemma length_hex: "length (hex k n) = k"
  by (induction k arbitrary: n) auto

lemma hexdigit_in: "k < 16 \<Longrightarrow> hexdigits ! k \<in> set hexdigits"
  by (rule nth_mem) (simp add: hexdigits_def)

lemma set_hex: "set (hex k n) \<subseteq> set hexdigits"
proof (induction k arbitrary: n)
  case 0
  show ?case by simp
next
  case (Suc k)
  have "hexdigits ! (n mod 16) \<in> set hexdigits" by (rule hexdigit_in) simp
  with Suc show ?case by auto
qed

lemma is_hex_digit: "c \<in> set hexdigits \<Longrightarrow> is_hex c"
  by (auto simp: hexdigits_def is_hex_def)

lemma lower_digit: "c \<in> set hexdigits \<Longrightarrow> lower_char c = c"
  by (auto simp: hexdigits_def lower_char_def)

text \<open>The string of a generated identifier converts back to that identifier.\<close>

lemma ObjectId_hex24: "ObjectId (hex24 n) = Inr (hex24 n)"
proof -
  have a: "list_all is_hex (hex24 n)"
    using set_hex [of 24 n] by (auto simp: hex24_def list_all_iff is_hex_digit)
  have b: "lower (hex24 n) = hex24 n"
    unfolding lower_def hex24_def using set_hex [of 24 n]
    by (intro map_idI) (auto simp: lower_digit)
  show ?thesis by (simp add: ObjectId_def a b) (simp add: hex24_def length_hex)
qed


lemma ObjectId_length: "ObjectId s = Inr i \<Longrightarrow> length s = 24"
  by (simp add: ObjectId_def split: if_splits)

lemma demo_id_ok: "ObjectId demo_id = Inr demo_id"
  by code_simp

lemma demo_found:
  "find_one demo_store (collection_name ModelSpec) demo_id =
     Some [(''_id'', JOid demo_id), (''name'', JStr ''demo''), (''status'', JStr ''ready'')]"
  by code_simp

section \<open>Serving\<close>

lemma find_one_Some: "find_one d c i = Some m \<Longrightarrow> m \<noteq> []"
  by (auto simp: find_one_def with_id_def)

lemma serve_model_found:
  assumes "ObjectId model_id = Inr i"
    and "find_one d (collection_name ModelSpec) i = Some model"
  shows "serve_model repr (Some d) model_id q =
           Inr [(''model_id'', JStr model_id), (''status'', JStr ''ok''),
                (''output'', JStr (reply_prefix repr model @ str_or q ''ping''))]"
  using assms find_one_Some [OF assms(2)] by (simp add: serve_model_def)

lemma serve_model_empty_is_absent:
  "serve_model repr db model_id (Some []) = serve_model repr db model_id None"
  by (simp only: serve_model_def str_or_empty)

text \<open>
  C5. For an existing model (the store is configured, \<open>model_id\<close> converts to an
  identifier and a \<open>ModelSpec\<close> document has it), the reply to a request without a
  query has an output text that contains \<open>ping\<close>, and the reply to the query
  \<open>hello\<close> has an output text that contains \<open>hello\<close>.
\<close>

theorem serve_model_echo:
  assumes "ObjectId model_id = Inr i"
    and "find_one d (collection_name ModelSpec) i = Some model"
  shows "\<exists>out1 out2.
           serve_model repr (Some d) model_id None =
             Inr [(''model_id'', JStr model_id), (''status'', JStr ''ok''),
                  (''output'', JStr out1)] \<and>
           contains ''ping'' out1 \<and>
           serve_model repr (Some d) model_id (Some ''hello'') =
             Inr [(''model_id'', JStr model_id), (''status'', JStr ''ok''),
                  (''output'', JStr out2)] \<and>
           contains ''hello'' out2"
proof (intro exI conjI)
  show "serve_model repr (Some d) model_id None =
          Inr [(''model_id'', JStr model_id), (''status'', JStr ''ok''),
               (''output'', JStr (reply_prefix repr model @ ''ping''))]"
    using serve_model_found [OF assms, of repr None] by (simp add: str_or_def)
  show "contains ''ping'' (reply_prefix repr model @ ''ping'')"
    by (rule contains_suffix)
  show "serve_model repr (Some d) model_id (Some ''hello'') =
          Inr [(''model_id'', JStr model_id), (''status'', JStr ''ok''),
               (''output'', JStr (reply_prefix repr model @ ''hello''))]"
    using serve_model_found [OF assms, of repr "Some ''hello''"] by (simp add: str_or_def)
  show "contains ''hello'' (reply_prefix repr model @ ''hello'')"
    by (rule contains_suffix)
qed

theorem serve_model_echo_witness:
  "ObjectId demo_id = Inr demo_id \<and>
   find_one demo_store (collection_name ModelSpec) demo_id =
     Some [(''_id'', JOid demo_id), (''name'', JStr ''demo''), (''status'', JStr ''ready'')] \<and>
   (\<exists>out1 out2.
      serve_model some_repr (Some demo_store) demo_id None =
        Inr [(''model_id'', JStr demo_id), (''status'', JStr ''ok''), (''output'', JStr out1)] \<and>
      contains ''ping'' out1 \<and>
      serve_model some_repr (Some demo_store) demo_id (Some ''hello'') =
        Inr [(''model_id'', JStr demo_id), (''status'', JStr ''ok''), (''output'', JStr out2)] \<and>
      contains ''hello'' out2)"
  using serve_model_echo [OF demo_id_ok demo_found, of some_repr] demo_id_ok demo_found
  by (intro conjI)

text \<open>
  C9. For an existing model, a request with the empty query gets the reply of a request
  without a query: the output text ends with the placeholder \<open>ping\<close>, which it
  therefore contains.
\<close>

theorem serve_model_empty_query:
  assumes "ObjectId model_id = Inr i"
    and "find_one d (collection_name ModelSpec) i = Some model"
  shows "serve_model repr (Some d) model_id (Some []) = serve_model repr (Some d) model_id None \<and>
         serve_model repr (Some d) model_id (Some []) =
           Inr [(''model_id'', JStr model_id), (''status'', JStr ''ok''),
                (''output'', JStr (reply_prefix repr model @ ''ping''))] \<and>
         contains ''ping'' (reply_prefix repr model @ ''ping'')"
proof (intro conjI)
  show "serve_model repr (Some d) model_id (Some []) = serve_model repr (Some d) model_id None"
    by (rule serve_model_empty_is_absent)
  show "serve_model repr (Some d) model_id (Some []) =
          Inr [(''model_id'', JStr model_id), (''status'', JStr ''ok''),
               (''output'', JStr (reply_prefix repr model @ ''ping''))]"
    using serve_model_found [OF assms, of repr "Some []"] by (simp add: str_or_def)
  show "contains ''ping'' (reply_prefix repr model @ ''ping'')"
    by (rule contains_suffix)
qed

theorem serve_model_empty_query_witness:
  "ObjectId demo_id = Inr demo_id \<and>
   find_one demo_store (collection_name ModelSpec) demo_id =
     Some [(''_id'', JOid demo_id), (''name'', JStr ''demo''), (''status'', JStr ''ready'')] \<and>
   serve_model some_repr (Some demo_store) demo_id (Some []) =
     serve_model some_repr (Some demo_store) demo_id None \<and>
   serve_model some_repr (Some demo_store) demo_id (Some []) =
     Inr [(''model_id'', JStr demo_id), (''status'', JStr ''ok''),
          (''output'',
            JStr (reply_prefix some_repr
                    [(''_id'', JOid demo_id), (''name'', JStr ''demo''),
                     (''status'', JStr ''ready'')] @ ''ping''))]"
  using serve_model_empty_query [OF demo_id_ok demo_found, of some_repr] demo_id_ok demo_found
  by blast

section \<open>Deployment\<close>

lemma coll_docs_insert_one:
  "coll_docs (snd (insert_one d c f)) c' =
     (if c' = c then coll_docs d c @ [(hex24 (next_oid d), f)] else coll_docs d c')"
  by (simp add: insert_one_def Let_def coll_docs_def update_conv')

lemma fst_insert_one: "fst (insert_one d c f) = hex24 (next_oid d)"
  by (simp add: insert_one_def Let_def)

lemma create_document_Some:
  "create_document (Some d) c data =
     (Inr (hex24 (next_oid d)), Some (snd (insert_one d c (model_dump data))))"
  by (simp add: create_document_def insert_one_def Let_def)

lemma last6_24: "length s = 24 \<Longrightarrow> last6 s = drop 18 s \<and> length (last6 s) = 6"
  by (simp add: last6_def)

lemma deploy_model_found:
  assumes "ObjectId (dr_model_id req) = Inr i"
    and "find_one d (collection_name ModelSpec) i = Some model"
  shows "deploy_model getenv (Some d) req =
           (Inr [(''deployment_id'', JStr (hex24 (next_oid d)))],
            Some (snd (insert_one d (collection_name Deployment)
              [(''model_id'', JStr (dr_model_id req)),
               (''name'', JStr (str_or (dr_name req) (''deployment-'' @ last6 (dr_model_id req)))),
               (''url'', JStr (getenv_default getenv ''PUBLIC_BACKEND_URL'' [] @ ''/serve/''
                                @ dr_model_id req)),
               (''status'', JStr ''active'')])))"
  using assms find_one_Some [OF assms(2)]
  by (simp add: deploy_model_def falsy_def create_document_Some opt_str_def)

lemma deploy_model_success:
  assumes "fst (deploy_model getenv db req) = Inr resp"
  shows "\<exists>d i model. db = Some d \<and> ObjectId (dr_model_id req) = Inr i \<and>
           find_one d (collection_name ModelSpec) i = Some model"
  using assms
  by (auto simp: deploy_model_def falsy_def split: option.splits sum.splits if_splits)

text \<open>
  C4. A successful deployment request without a name appends one document to the
  deployment collection, under the returned identifier, whose name is \<open>deployment-\<close>
  followed by the last six characters of the request's \<open>model_id\<close> (which has 24
  characters, since the request succeeded).
\<close>

theorem deploy_model_default_name:
  assumes "fst (deploy_model getenv db req) = Inr resp"
    and "dr_name req = None"
  shows "\<exists>d d' dep_id f.
           db = Some d \<and> snd (deploy_model getenv db req) = Some d' \<and>
           resp = [(''deployment_id'', JStr dep_id)] \<and>
           coll_docs d' (collection_name Deployment) =
             coll_docs d (collection_name Deployment) @ [(dep_id, f)] \<and>
           map_of f ''name'' = Some (JStr (''deployment-'' @ last6 (dr_model_id req))) \<and>
           last6 (dr_model_id req) = drop 18 (dr_model_id req) \<and>
           length (last6 (dr_model_id req)) = 6"
proof -
  obtain d i model where d: "db = Some d" and i: "ObjectId (dr_model_id req) = Inr i"
    and m: "find_one d (collection_name ModelSpec) i = Some model"
    using deploy_model_success [OF assms(1)] by blast
  note r = deploy_model_found [OF i m, of getenv]
  have l: "last6 (dr_model_id req) = drop 18 (dr_model_id req) \<and>
           length (last6 (dr_model_id req)) = 6"
    using last6_24 [OF ObjectId_length [OF i]] .
  show ?thesis
    using assms l ObjectId_length [OF i] unfolding d r
    by (simp add: coll_docs_insert_one str_or_def)
qed

lemma demo_deploy_ok:
  "fst (deploy_model no_env (Some demo_store) demo_deploy) =
     Inr [(''deployment_id'', JStr ''0000000000000000000000ab'')]"
  by code_simp

lemma demo_deploy_name: "dr_name demo_deploy = None"
  by (simp add: demo_deploy_def)

theorem deploy_model_default_name_witness:
  "fst (deploy_model no_env (Some demo_store) demo_deploy) =
     Inr [(''deployment_id'', JStr ''0000000000000000000000ab'')] \<and>
   dr_name demo_deploy = None \<and>
   (\<exists>d' f.
      snd (deploy_model no_env (Some demo_store) demo_deploy) = Some d' \<and>
      coll_docs d' (collection_name Deployment) =
        coll_docs demo_store (collection_name Deployment) @ [(''0000000000000000000000ab'', f)] \<and>
      map_of f ''name'' = Some (JStr ''deployment-0000aa''))"
  using deploy_model_default_name [OF demo_deploy_ok demo_deploy_name]
    demo_deploy_ok demo_deploy_name
  by (auto simp: demo_deploy_def demo_id_def last6_def)

text \<open>A deployment request that fails leaves the store as it was.\<close>

lemma deploy_model_error_frame:
  "fst (deploy_model getenv db req) = Inl e \<Longrightarrow> snd (deploy_model getenv db req) = db"
  by (auto simp: deploy_model_def create_document_Some split: option.splits sum.splits if_splits)

text \<open>
  C3, as amended. With the store configured, a deployment request whose \<open>model_id\<close>
  converts to an identifier that no \<open>ModelSpec\<close> document has is answered with status
  404 and leaves the store, and so the deployment collection, unchanged.
\<close>

theorem deploy_model_absent:
  assumes "ObjectId (dr_model_id req) = Inr i"
    and "find_one d (collection_name ModelSpec) i = None"
  shows "deploy_model getenv (Some d) req =
           (Inl (HTTPException 404 ''Model not found''), Some d) \<and>
         http_status 201 (fst (deploy_model getenv (Some d) req)) = 404"
  using assms by (simp add: deploy_model_def falsy_def)

lemma absent_id_ok: "ObjectId absent_id = Inr absent_id"
  by code_simp

lemma absent_not_found: "find_one demo_store (collection_name ModelSpec) absent_id = None"
  by code_simp

theorem deploy_model_absent_witness:
  "ObjectId (dr_model_id absent_deploy) = Inr absent_id \<and>
   find_one demo_store (collection_name ModelSpec) absent_id = None \<and>
   deploy_model no_env (Some demo_store) absent_deploy =
     (Inl (HTTPException 404 ''Model not found''), Some demo_store)"
  using deploy_model_absent [of absent_deploy absent_id demo_store no_env]
    absent_id_ok absent_not_found
  by (simp add: absent_deploy_def)

text \<open>
  The claim C3 as stated fails: the model identifier \<open>abc\<close> matches no document, and
  the request is answered with the generic status 500 of an unhandled \<open>InvalidId\<close>;
  and with the store not configured an identifier that matches nothing is answered
  with status 500 as well.
\<close>

theorem deploy_model_malformed_not_404:
  "find_one demo_store (collection_name ModelSpec) ''abc'' = None \<and>
   deploy_model no_env (Some demo_store) malformed_deploy =
     (Inl (InvalidId ''abc''), Some demo_store) \<and>
   http_status 201 (fst (deploy_model no_env (Some demo_store) malformed_deploy)) = 500 \<and>
   http_status 201 (fst (deploy_model no_env None absent_deploy)) = 500"
  by code_simp




section \<open>Generation\<close>


text \<open>
  With the adapter as the spec describes it, a request made with no store fails in the
  first \<open>create_document\<close>, before that block.
\<close>

lemma generate_model_unavailable:
  "generate_model None req = (Inl StorageUnavailable, None)"
  by (simp add: generate_model_def create_document_def)

subsection \<open>The store after a write\<close>

lemma next_oid_insert_one: "next_oid (snd (insert_one d c f)) = Suc (next_oid d)"
  by (simp add: insert_one_def Let_def)

lemma oplog_insert_one:
  "oplog (snd (insert_one d c f)) = oplog d @ [InsertOp c (hex24 (next_oid d)) f]"
  by (simp add: insert_one_def Let_def)

lemma coll_docs_update_one:
  "coll_docs (update_one d c i s) c' =
     (if c' = c then update_first i s (coll_docs d c) else coll_docs d c')"
  by (simp add: update_one_def coll_docs_def update_conv' split: option.splits)

lemma oplog_update_one: "oplog (update_one d c i s) = oplog d @ [UpdateOp c i s]"
  by (simp add: update_one_def)

lemma find_fresh:
  "i \<notin> fst ` set xs \<Longrightarrow> find (\<lambda>p. fst p = i) (xs @ [(i, f)]) = Some (i, f)"
  by (induction xs) auto

lemma update_first_fresh:
  "i \<notin> fst ` set xs \<Longrightarrow> update_first i s (xs @ [(i, f)]) = xs @ [(i, set_fields s f)]"
  by (induction xs) auto

subsection \<open>The two paths on a configured store\<close>

lemma generate_model_invalid_name:
  assumes "\<forall>n. requested_name req \<noteq> JStr n"
  shows "generate_model (Some d) req =
           (Inl ValidationError,
            Some (snd (insert_one d (collection_name GenerationJob) (job_doc req))))"
  using assms
  by (cases "requested_name req")
     (simp_all add: generate_model_def create_document_Some new_ModelSpec_def job_doc_def
        opt_str_def)

lemma generate_model_valid_name:
  assumes "requested_name req = JStr n"
  shows "generate_model (Some d) req =
           (let d1 = snd (insert_one d (collection_name GenerationJob) (job_doc req));
                d2 = snd (insert_one d1 (collection_name ModelSpec) (model_doc req n))
            in (Inr [(''job_id'', JStr (hex24 (next_oid d))),
                     (''model_id'', JStr (hex24 (Suc (next_oid d))))],
                Some (update_one d2 (collection_name GenerationJob) (hex24 (next_oid d))
                        [(''status'', JStr ''completed''),
                         (''model_id'', JStr (hex24 (Suc (next_oid d))))])))"
  using assms
  by (simp add: generate_model_def create_document_Some new_ModelSpec_def job_doc_def
        model_doc_def opt_str_def complete_job_def ObjectId_hex24 next_oid_insert_one Let_def)

text \<open>
  C1, as amended. With the store configured, for a request whose parameters give no
  name or a string as name, and when the two identifiers the store generates are new to
  their collections, the handler returns status 201 with a \<open>job_id\<close> and a \<open>model_id\<close>;
  the \<open>ModelSpec\<close> document under \<open>model_id\<close> has status \<open>ready\<close> and two artifacts,
  and the \<open>GenerationJob\<close> document under \<open>job_id\<close> has status \<open>completed\<close> and that
  \<open>model_id\<close>.
\<close>

theorem generate_model_ok:
  assumes "requested_name req = JStr n"
    and "hex24 (next_oid d) \<notin> fst ` set (coll_docs d (collection_name GenerationJob))"
    and "hex24 (Suc (next_oid d)) \<notin> fst ` set (coll_docs d (collection_name ModelSpec))"
  shows "\<exists>job_id model_id d' jdoc mdoc a1 a2.
           generate_model (Some d) req =
             (Inr [(''job_id'', JStr job_id), (''model_id'', JStr model_id)], Some d') \<and>
           http_status 201 (fst (generate_model (Some d) req)) = 201 \<and>
           ObjectId model_id = Inr model_id \<and> ObjectId job_id = Inr job_id \<and>
           find_one d' (collection_name ModelSpec) model_id = Some mdoc \<and>
           map_of mdoc ''status'' = Some (JStr ''ready'') \<and>
           map_of mdoc ''artifacts'' = Some (JList [a1, a2]) \<and>
           find_one d' (collection_name GenerationJob) job_id = Some jdoc \<and>
           map_of jdoc ''status'' = Some (JStr ''completed'') \<and>
           map_of jdoc ''model_id'' = Some (JStr model_id)"
proof -
  let ?j = "hex24 (next_oid d)" and ?m = "hex24 (Suc (next_oid d))"
  let ?gj = "collection_name GenerationJob" and ?ms = "collection_name ModelSpec"
  let ?d1 = "snd (insert_one d ?gj (job_doc req))"
  let ?d2 = "snd (insert_one ?d1 ?ms (model_doc req n))"
  let ?s = "[(''status'', JStr ''completed''), (''model_id'', JStr ?m)]"
  let ?d' = "update_one ?d2 ?gj ?j ?s"
  have ne: "?ms \<noteq> ?gj"
    by (simp add: collection_name_ModelSpec collection_name_GenerationJob)
  have r: "generate_model (Some d) req =
             (Inr [(''job_id'', JStr ?j), (''model_id'', JStr ?m)], Some ?d')"
    using generate_model_valid_name [OF assms(1), of d] by (simp add: Let_def)
  have models: "coll_docs ?d' ?ms = coll_docs d ?ms @ [(?m, model_doc req n)]"
    using ne by (simp add: coll_docs_update_one coll_docs_insert_one next_oid_insert_one)
  have jobs: "coll_docs ?d' ?gj = coll_docs d ?gj @ [(?j, set_fields ?s (job_doc req))]"
    using ne assms(2)
    by (simp add: coll_docs_update_one coll_docs_insert_one update_first_fresh)
  have fm: "find_one ?d' ?ms ?m = Some (with_id (?m, model_doc req n))"
    unfolding find_one_def models using find_fresh [OF assms(3)] by simp
  have fj: "find_one ?d' ?gj ?j = Some (with_id (?j, set_fields ?s (job_doc req)))"
    unfolding find_one_def jobs using find_fresh [OF assms(2)] by simp
  have m1: "map_of (with_id (?m, model_doc req n)) ''status'' = Some (JStr ''ready'')"
    by (simp add: with_id_def model_doc_def)
  have m2: "map_of (with_id (?m, model_doc req n)) ''artifacts'' =
              Some (JList [JStr ''weights://mock/model.bin'', JStr ''tokenizer://mock/vocab.json''])"
    by (simp add: with_id_def model_doc_def)
  have j1: "map_of (with_id (?j, set_fields ?s (job_doc req))) ''status'' =
              Some (JStr ''completed'')"
    by (simp add: with_id_def job_doc_def)
  have j2: "map_of (with_id (?j, set_fields ?s (job_doc req))) ''model_id'' = Some (JStr ?m)"
    by (simp add: with_id_def job_doc_def)
  have st: "http_status 201 (fst (generate_model (Some d) req)) = 201"
    by (simp add: r)
  show ?thesis
    using r st ObjectId_hex24 [of "next_oid d"] ObjectId_hex24 [of "Suc (next_oid d)"]
      fm m1 m2 fj j1 j2
    by blast
qed

lemma hello_name: "requested_name hello_request = JStr ''Prompt Model''"
  by code_simp

lemma empty_fresh_job:
  "hex24 (next_oid empty_store) \<notin> fst ` set (coll_docs empty_store (collection_name GenerationJob))"
  by (simp add: empty_store_def coll_docs_def)

lemma empty_fresh_model:
  "hex24 (Suc (next_oid empty_store)) \<notin>
     fst ` set (coll_docs empty_store (collection_name ModelSpec))"
  by (simp add: empty_store_def coll_docs_def)

theorem generate_model_ok_witness:
  "requested_name hello_request = JStr ''Prompt Model'' \<and>
   hex24 (next_oid empty_store) \<notin>
     fst ` set (coll_docs empty_store (collection_name GenerationJob)) \<and>
   hex24 (Suc (next_oid empty_store)) \<notin>
     fst ` set (coll_docs empty_store (collection_name ModelSpec)) \<and>
   (\<exists>job_id model_id d' jdoc mdoc a1 a2.
      generate_model (Some empty_store) hello_request =
        (Inr [(''job_id'', JStr job_id), (''model_id'', JStr model_id)], Some d') \<and>
      http_status 201 (fst (generate_model (Some empty_store) hello_request)) = 201 \<and>
      ObjectId model_id = Inr model_id \<and> ObjectId job_id = Inr job_id \<and>
      find_one d' (collection_name ModelSpec) model_id = Some mdoc \<and>
      map_of mdoc ''status'' = Some (JStr ''ready'') \<and>
      map_of mdoc ''artifacts'' = Some (JList [a1, a2]) \<and>
      find_one d' (collection_name GenerationJob) job_id = Some jdoc \<and>
      map_of jdoc ''status'' = Some (JStr ''completed'') \<and>
      map_of jdoc ''model_id'' = Some (JStr model_id))"
  using generate_model_ok [OF hello_name empty_fresh_job empty_fresh_model]
    hello_name empty_fresh_job empty_fresh_model
  by (intro conjI)

text \<open>
  The claim C1 as stated fails: a request whose parameters give the name \<^verbatim>\<open>null\<close> is a
  valid request, and the constructor of \<open>ModelSpec\<close> rejects it; the handler raises and
  the client gets status 500.
\<close>

theorem generate_model_null_name:
  "requested_name null_name_request = JNull \<and>
   fst (generate_model (Some empty_store) null_name_request) = Inl ValidationError \<and>
   http_status 201 (fst (generate_model (Some empty_store) null_name_request)) = 500"
  by code_simp

subsection \<open>Status writes\<close>

lemma issued_append: "oplog d' = oplog d @ ops \<Longrightarrow> issued (Some d) (Some d') = ops"
  by (simp add: issued_def)

lemma job_status_writes_Nil: "job_status_writes [] = []"
  by (simp add: job_status_writes_def map_filter_simps)

lemma job_status_writes_Cons:
  "job_status_writes (x # xs) =
     (case job_status_write x of None \<Rightarrow> job_status_writes xs
      | Some w \<Rightarrow> w # job_status_writes xs)"
  by (cases "job_status_write x") (simp_all add: job_status_writes_def map_filter_simps)

lemma job_doc_status: "map_of (job_doc req) ''status'' = Some (JStr ''running'')"
  by (simp add: job_doc_def)

lemma generate_model_status_writes:
  "job_status_writes (issued (Some d) (snd (generate_model (Some d) req))) =
     (case fst (generate_model (Some d) req) of
        Inl e \<Rightarrow> [(hex24 (next_oid d), JStr ''running'')]
      | Inr r \<Rightarrow> [(hex24 (next_oid d), JStr ''running''),
                  (hex24 (next_oid d), JStr ''completed'')])"
proof (cases "\<exists>n. requested_name req = JStr n")
  case True
  then obtain n where n: "requested_name req = JStr n" by blast
  let ?gj = "collection_name GenerationJob" and ?ms = "collection_name ModelSpec"
  let ?d1 = "snd (insert_one d ?gj (job_doc req))"
  let ?d2 = "snd (insert_one ?d1 ?ms (model_doc req n))"
  let ?s = "[(''status'', JStr ''completed''), (''model_id'', JStr (hex24 (Suc (next_oid d))))]"
  let ?d' = "update_one ?d2 ?gj (hex24 (next_oid d)) ?s"
  have ne: "?ms \<noteq> ?gj"
    by (simp add: collection_name_ModelSpec collection_name_GenerationJob)
  have r: "generate_model (Some d) req =
             (Inr [(''job_id'', JStr (hex24 (next_oid d))),
                   (''model_id'', JStr (hex24 (Suc (next_oid d))))], Some ?d')"
    using generate_model_valid_name [OF n, of d] by (simp add: Let_def)
  have ops: "oplog ?d' = oplog d @
               [InsertOp ?gj (hex24 (next_oid d)) (job_doc req),
                InsertOp ?ms (hex24 (Suc (next_oid d))) (model_doc req n),
                UpdateOp ?gj (hex24 (next_oid d)) ?s]"
    by (simp add: oplog_update_one oplog_insert_one next_oid_insert_one)
  show ?thesis
    unfolding r using ne
    by (simp add: issued_append [OF ops] job_status_writes_Cons job_status_writes_Nil
          job_doc_status)
next
  case False
  then have inv: "\<forall>n. requested_name req \<noteq> JStr n" by blast
  let ?gj = "collection_name GenerationJob"
  let ?d1 = "snd (insert_one d ?gj (job_doc req))"
  have ops: "oplog ?d1 = oplog d @ [InsertOp ?gj (hex24 (next_oid d)) (job_doc req)]"
    by (simp add: oplog_insert_one)
  show ?thesis
    unfolding generate_model_invalid_name [OF inv]
    by (simp add: issued_append [OF ops] job_status_writes_Cons job_status_writes_Nil
          job_doc_status)
qed

lemma deploy_model_status_writes:
  "job_status_writes (issued db (snd (deploy_model getenv db req))) = []"
proof (cases "fst (deploy_model getenv db req)")
  case (Inl e)
  then have "snd (deploy_model getenv db req) = db" by (rule deploy_model_error_frame)
  then show ?thesis
    by (simp add: issued_def job_status_writes_Nil split: option.splits)
next
  case (Inr resp)
  then obtain d i model where d: "db = Some d" and i: "ObjectId (dr_model_id req) = Inr i"
    and m: "find_one d (collection_name ModelSpec) i = Some model"
    using deploy_model_success by blast
  have ne: "collection_name Deployment \<noteq> collection_name GenerationJob"
    by (simp add: collection_name_Deployment collection_name_GenerationJob)
  show ?thesis
    unfolding d deploy_model_found [OF i m] using ne
    by (simp add: issued_append [OF oplog_insert_one] job_status_writes_Cons
          job_status_writes_Nil)
qed

text \<open>
  C8, as amended. A generation request on a configured store writes the status of one
  job only, the one it creates: \<open>running\<close> at creation and then, when the request
  succeeds, \<open>completed\<close>, once; when the request fails after the creation, the job is
  left \<open>running\<close>. Without a store it writes nothing, and a deployment request never
  writes a job status. So no status other than \<open>running\<close> and \<open>completed\<close> is
  written.
\<close>

theorem job_status_transitions:
  "job_status_writes (issued db (snd (generate_model db req))) =
     (case db of
        None \<Rightarrow> []
      | Some d \<Rightarrow>
          (case fst (generate_model db req) of
             Inl e \<Rightarrow> [(hex24 (next_oid d), JStr ''running'')]
           | Inr r \<Rightarrow> [(hex24 (next_oid d), JStr ''running''),
                       (hex24 (next_oid d), JStr ''completed'')])) \<and>
   job_status_writes (issued db (snd (deploy_model getenv db dreq))) = []"
proof (cases db)
  case None
  then show ?thesis
    by (simp add: deploy_model_status_writes generate_model_unavailable issued_def
          job_status_writes_Nil)
next
  case (Some d)
  then show ?thesis
    by (simp add: deploy_model_status_writes generate_model_status_writes)
qed

text \<open>
  The claim C8 as stated fails: the request with the name \<^verbatim>\<open>null\<close> creates a job
  with status \<open>running\<close> and raises before the update, so that job is never updated
  to \<open>completed\<close>.
\<close>

theorem job_left_running:
  "fst (generate_model (Some empty_store) null_name_request) = Inl ValidationError \<and>
   job_status_writes
     (issued (Some empty_store) (snd (generate_model (Some empty_store) null_name_request))) =
     [(''000000000000000000000000'', JStr ''running'')] \<and>
   map_option (\<lambda>d. find_one d (collection_name GenerationJob) ''000000000000000000000000'')
     (snd (generate_model (Some empty_store) null_name_request)) =
     Some (Some [(''_id'', JOid ''000000000000000000000000''), (''prompt'', JStr ''hello''),
                 (''status'', JStr ''running''), (''model_id'', JNull)])"
  by code_simp

section \<open>Diagnostics\<close>

lemma test_database_returns: "\<exists>r. test_database getenv db = Inr r"
  by (simp add: test_database_def Let_def)

lemma test_database_field:
  "test_database getenv db = Inr r \<Longrightarrow>
   map_of r ''database'' =
     map_of (test_connection db
       [(''backend'', JStr (ok_mark @ '' Running'')),
        (''database'', JStr (cross_mark @ '' Not Available'')),
        (''database_url'', JNull),
        (''database_name'', JNull),
        (''connection_status'', JStr ''Not Connected''),
        (''collections'', JList [])]) ''database''"
  by (auto simp: test_database_def Let_def update_conv')

lemma test_connection_unavailable:
  "map_of (test_connection None response) ''database'' =
     Some (JStr (warn_mark @ ''  Available but not initialized''))"
  by (simp add: test_connection_def update_conv')

lemma test_connection_name_raises:
  "name_attr d = AttrRaises e \<Longrightarrow>
   map_of (test_connection (Some d) response) ''database'' =
     Some (JStr (cross_mark @ '' Error: '' @ take 50 e))"
  by (simp add: test_connection_def db_name_def Let_def update_conv')

lemma test_connection_listing_raises:
  "\<forall>m. name_attr d \<noteq> AttrRaises m \<Longrightarrow> listing_error d = Some e \<Longrightarrow>
   map_of (test_connection (Some d) response) ''database'' =
     Some (JStr (warn_mark @ ''  Connected but Error: '' @ take 50 e))"
  by (cases "name_attr d")
     (simp_all add: test_connection_def db_name_def Let_def update_conv' test_listing_def
        list_collection_names_def)

lemma test_connection_working:
  "\<forall>m. name_attr d \<noteq> AttrRaises m \<Longrightarrow> listing_error d = None \<Longrightarrow>
   map_of (test_connection (Some d) response) ''database'' =
     Some (JStr (ok_mark @ '' Connected & Working''))"
  by (cases "name_attr d")
     (simp_all add: test_connection_def db_name_def Let_def update_conv' test_listing_def
        list_collection_names_def)

text \<open>
  C6. For every store state and environment the diagnostic handler returns a response.
  Without a store the response says so; when reading the name of the database or listing
  the collections raises, the \<open>database\<close> field reports the exception's text cut at
  50 characters; otherwise it reports a working connection.
\<close>

theorem test_database_never_raises:
  "\<exists>r. test_database getenv db = Inr r \<and>
     (db = None \<longrightarrow>
        map_of r ''database'' = Some (JStr (warn_mark @ ''  Available but not initialized''))) \<and>
     (\<forall>d e. db = Some d \<longrightarrow> name_attr d = AttrRaises e \<longrightarrow>
        (\<exists>m. map_of r ''database'' = Some (JStr (cross_mark @ '' Error: '' @ m)) \<and>
             m = take 50 e \<and> length m \<le> 50)) \<and>
     (\<forall>d e. db = Some d \<longrightarrow> (\<forall>m. name_attr d \<noteq> AttrRaises m) \<longrightarrow>
        listing_error d = Some e \<longrightarrow>
        (\<exists>m. map_of r ''database'' = Some (JStr (warn_mark @ ''  Connected but Error: '' @ m)) \<and>
             m = take 50 e \<and> length m \<le> 50)) \<and>
     (\<forall>d. db = Some d \<longrightarrow> (\<forall>m. name_attr d \<noteq> AttrRaises m) \<longrightarrow>
        listing_error d = None \<longrightarrow>
        map_of r ''database'' = Some (JStr (ok_mark @ '' Connected & Working'')))"
proof -
  obtain r where r: "test_database getenv db = Inr r"
    using test_database_returns by blast
  show ?thesis
    using r test_database_field [OF r]
    by (auto simp: test_connection_name_raises test_connection_listing_raises
          test_connection_unavailable test_connection_working)
qed

theorem test_database_never_raises_witness:
  "name_attr failing_store = Attr ''app'' \<and> listing_error failing_store = Some ''boom'' \<and>
   (\<exists>r. test_database no_env (Some failing_store) = Inr r \<and>
        map_of r ''database'' = Some (JStr (warn_mark @ ''  Connected but Error: '' @ ''boom'')))"
  using test_database_never_raises [of no_env "Some failing_store"]
  by (auto simp: failing_store_def empty_store_def)

(* listing *)

section \<open>Listing\<close>

lemma to_public_with_id:
  "to_public repr (with_id p) =
     AList.update ''id'' (JStr (fst p)) (AList.delete ''_id'' (snd p))"
  by (simp add: to_public_def with_id_def)

lemma to_public_with_id_keys:
  "map_of (to_public repr (with_id p)) ''_id'' = None \<and>
   map_of (to_public repr (with_id p)) ''id'' = Some (JStr (fst p))"
  by (simp add: to_public_with_id update_conv' delete_conv')

text \<open>
  C2, as amended. With the store configured and a limit \<open>N\<close> that is not negative, the
  listing returns at most \<open>N\<close> records, the first ones of the collection; every record
  has no \<open>_id\<close> field, and its \<open>id\<close> field is the string of the stored identifier.
\<close>

theorem list_models_bounded:
  assumes "0 \<le> limit"
  shows "\<exists>docs. list_models repr (Some d) limit = Inr docs \<and>
           int (length docs) \<le> limit \<and>
           (\<forall>doc \<in> set docs. map_of doc ''_id'' = None \<and> (\<exists>i. map_of doc ''id'' = Some (JStr i))) \<and>
           map (\<lambda>doc. map_of doc ''id'') docs =
             map (\<lambda>p. Some (JStr (fst p))) (take (nat limit) (coll_docs d (collection_name ModelSpec)))"
  using assms
  by (auto simp: list_models_def get_documents_def to_public_with_id_keys)

lemma demo_list:
  "list_models some_repr (Some demo_store) 5 =
     Inr [[(''name'', JStr ''demo''), (''status'', JStr ''ready''), (''id'', JStr demo_id)]]"
  by code_simp

theorem list_models_bounded_witness:
  "(0::int) \<le> 5 \<and>
   (\<exists>docs. list_models some_repr (Some demo_store) 5 = Inr docs \<and>
      docs = [[(''name'', JStr ''demo''), (''status'', JStr ''ready''), (''id'', JStr demo_id)]] \<and>
      int (length docs) \<le> 5 \<and>
      map (\<lambda>doc. map_of doc ''_id'') docs = [None] \<and>
      map (\<lambda>doc. map_of doc ''id'') docs = [Some (JStr demo_id)])"
  using list_models_bounded [of 5 some_repr demo_store] demo_list
  by auto

text \<open>
  The claim C2 as stated fails for a negative limit, which the handler accepts: no list
  of records has at most \<open>-1\<close> elements.
\<close>

theorem list_models_negative_limit:
  "list_models some_repr (Some demo_store) (- 1) = Inr [] \<and>
   \<not> int (length ([] :: doc list)) \<le> - 1"
  by (simp add: list_models_def get_documents_def)

end
